theory Spec2Isabelle
  imports Main
begin

section \<open>JavaScript values\<close>

text \<open>
  The quest log is JavaScript: the constructors of \<open>Task\<close>, \<open>Reward\<close> and \<open>Quest\<close> take
  loosely typed records and keep whatever truthy value a field holds. A raw value is
  \<open>undefined\<close>, \<open>null\<close>, a boolean, a number, a string, an array or an object; an object is
  its list of own properties in insertion order (the first binding of a key is the one a
  lookup finds). Numbers are restricted to integers: \<open>NaN\<close>, infinities and fractions are
  not modelled. Functions, symbols and prototype chains are not modelled either.
\<close>

datatype jsval =
    Undefined
  | Null
  | JBool bool
  | JNum int
  | JStr string
  | JArr "jsval list"
  | JObj "(string \<times> jsval) list"

text \<open>
  What the source can throw: a \<open>TypeError\<close> from reading a property of \<open>null\<close> or
  \<open>undefined\<close>, and the \<open>Error\<close> objects \<open>Reward.create\<close> builds. The message of such an
  \<open>Error\<close> is \<open>game.i18n.localize(key)\<close>; the model keeps the key.
\<close>

datatype error = TypeError | ApiError string

text \<open>ToBoolean: what \<open>if (v)\<close>, \<open>!v\<close> and \<open>v || w\<close> test.\<close>

fun truthy :: "jsval \<Rightarrow> bool" where
  "truthy Undefined = False"
| "truthy Null = False"
| "truthy (JBool b) = b"
| "truthy (JNum n) = (n \<noteq> 0)"
| "truthy (JStr s) = (s \<noteq> [])"
| "truthy (JArr xs) = True"
| "truthy (JObj kvs) = True"

text \<open>\<open>a || b\<close>\<close>

definition js_or :: "jsval \<Rightarrow> jsval \<Rightarrow> jsval" where
  "js_or a b = (if truthy a then a else b)"

text \<open>\<open>!a\<close>\<close>

definition js_not :: "jsval \<Rightarrow> jsval" where
  "js_not a = JBool (\<not> truthy a)"

text \<open>
  \<open>v.k\<close> for a property name \<open>k\<close>. Reading a property of \<open>null\<close> or \<open>undefined\<close> throws;
  an object answers from its own properties (\<open>field\<close>: the value of the property, or
  \<open>undefined\<close> when the object has none of that name); a string and an array know their \<open>length\<close>;
  every other read is \<open>undefined\<close> (the source reads no property that a built-in
  prototype defines, and no array index through this function).
\<close>

definition field :: "(string \<times> jsval) list \<Rightarrow> string \<Rightarrow> jsval" where
  "field kvs k = (case map_of kvs k of Some v \<Rightarrow> v | None \<Rightarrow> Undefined)"

fun get_prop :: "jsval \<Rightarrow> string \<Rightarrow> error + jsval" where
  "get_prop Undefined k = Inl TypeError"
| "get_prop Null k = Inl TypeError"
| "get_prop (JObj kvs) k = Inr (field kvs k)"
| "get_prop (JStr s) k = Inr (if k = ''length'' then JNum (int (length s)) else Undefined)"
| "get_prop (JArr xs) k = Inr (if k = ''length'' then JNum (int (length xs)) else Undefined)"
| "get_prop (JBool b) k = Inr Undefined"
| "get_prop (JNum n) k = Inr Undefined"

text \<open>A parameter declared \<open>data = {}\<close>: only \<open>undefined\<close> takes the default.\<close>

definition default_empty :: "jsval \<Rightarrow> jsval" where
  "default_empty d = (if d = Undefined then JObj [] else d)"

text \<open>
  Sequencing of steps that may throw: the first exception ends the evaluation.
\<close>

definition and_then :: "error + 'a \<Rightarrow> ('a \<Rightarrow> error + 'b) \<Rightarrow> error + 'b" where
  "and_then m f = (case m of Inl e \<Rightarrow> Inl e | Inr x \<Rightarrow> f x)"

section \<open>Task (nested in Quest.js)\<close>

text \<open>
  \<open>class Task\<close> of \<open>src/modules/model/Quest.js\<close>. The fields are \<open>name\<close>, \<open>completed\<close>,
  \<open>failed\<close> and \<open>hidden\<close>; they carry the prefix \<open>task_\<close> here because \<open>Reward\<close> has a
  \<open>hidden\<close> of its own.
\<close>

record task =
  task_name :: jsval
  task_completed :: jsval
  task_failed :: jsval
  task_hidden :: jsval

text \<open>
  \<^verbatim>\<open>constructor(data = {}) {
     this.name = data.name || null;
     this.completed = data.completed || false;
     this.failed = data.failed || false;
     this.hidden = data.hidden || false; }\<close>
\<close>

definition Task_new :: "jsval \<Rightarrow> error + task" where
  "Task_new data0 =
    (let data = default_empty data0 in
     and_then (get_prop data ''name'') (\<lambda>n.
     and_then (get_prop data ''completed'') (\<lambda>c.
     and_then (get_prop data ''failed'') (\<lambda>f.
     and_then (get_prop data ''hidden'') (\<lambda>h.
       Inr \<lparr> task_name = js_or n Null,
             task_completed = js_or c (JBool False),
             task_failed = js_or f (JBool False),
             task_hidden = js_or h (JBool False) \<rparr>)))))"

text \<open>\<open>get state()\<close>: the icon name derived from the two flags.\<close>

definition Task_state :: "task \<Rightarrow> string" where
  "Task_state t =
    (if truthy (task_completed t) then ''check-square''
     else if truthy (task_failed t) then ''minus-square''
     else ''square'')"

text \<open>
  \<^verbatim>\<open>toggle() {
     if (this.completed === false && this.failed === false) { this.completed = true; }
     else if (this.completed === true) { this.failed = true; this.completed = false; }
     else { this.failed = false; } }\<close>
\<close>

definition Task_toggle :: "task \<Rightarrow> task" where
  "Task_toggle t =
    (if task_completed t = JBool False \<and> task_failed t = JBool False
       then t\<lparr>task_completed := JBool True\<rparr>
     else if task_completed t = JBool True
       then t\<lparr>task_failed := JBool True, task_completed := JBool False\<rparr>
     else t\<lparr>task_failed := JBool False\<rparr>)"

text \<open>\<open>toggleVisible()\<close>: negates \<open>hidden\<close> and returns the new value with the task.\<close>

definition Task_toggleVisible :: "task \<Rightarrow> jsval \<times> task" where
  "Task_toggleVisible t =
    (let h = js_not (task_hidden t) in (h, t\<lparr>task_hidden := h\<rparr>))"

text \<open>
  The calls a client can make on a task after constructing it, and a run of them.
\<close>

datatype task_call = Toggle | ToggleVisible

fun Task_call :: "task \<Rightarrow> task_call \<Rightarrow> task" where
  "Task_call t Toggle = Task_toggle t"
| "Task_call t ToggleVisible = snd (Task_toggleVisible t)"

definition Task_calls :: "task \<Rightarrow> task_call list \<Rightarrow> task" where
  "Task_calls t cs = foldl Task_call t cs"

section \<open>Reward\<close>

subsection \<open>The standalone class (entities/reward.js)\<close>

text \<open>
  The default export of \<open>src/modules/entities/reward.js\<close> keeps its state in \<open>_type\<close>,
  \<open>_data\<close> and \<open>_hidden\<close> and reads it through the getters \<open>type\<close>, \<open>data\<close> and
  \<open>hidden\<close>; the three record fields below are those getters.
\<close>

record reward_entity =
  ent_type :: jsval
  ent_data :: jsval
  ent_hidden :: jsval

text \<open>
  \<^verbatim>\<open>constructor(data = {}) {
     this._type = data.type || null;
     this._data = data.data || {};
     this._hidden = data.hidden || false; }\<close>
\<close>

definition Reward_new :: "jsval \<Rightarrow> error + reward_entity" where
  "Reward_new data0 =
    (let data = default_empty data0 in
     and_then (get_prop data ''type'') (\<lambda>t.
     and_then (get_prop data ''data'') (\<lambda>d.
     and_then (get_prop data ''hidden'') (\<lambda>h.
       Inr \<lparr> ent_type = js_or t Null,
             ent_data = js_or d (JObj []),
             ent_hidden = js_or h (JBool False) \<rparr>))))"

definition Reward_isValid :: "reward_entity \<Rightarrow> bool" where
  "Reward_isValid r = (ent_type r \<noteq> Null)"

text \<open>
  \<^verbatim>\<open>static create(data = {}) {
     if (data.type === undefined)
        { throw new Error(game.i18n.localize('ForienQuestLog.Api.reward.create.type')); }
     if (data.data === undefined || data.data.name === undefined || data.data.img === undefined)
        { throw new Error(game.i18n.localize('ForienQuestLog.Api.reward.create.data')); }
     return new Reward(data); }\<close>
  The disjunction is evaluated left to right and stops at the first true disjunct, so
  \<open>data.data.name\<close> is read only when \<open>data.data\<close> is not \<open>undefined\<close>.
\<close>

definition Reward_create :: "jsval \<Rightarrow> error + reward_entity" where
  "Reward_create data0 =
    (let data = default_empty data0 in
     and_then (get_prop data ''type'') (\<lambda>t.
     if t = Undefined then Inl (ApiError ''ForienQuestLog.Api.reward.create.type'') else
     and_then (get_prop data ''data'') (\<lambda>d.
     if d = Undefined then Inl (ApiError ''ForienQuestLog.Api.reward.create.data'') else
     and_then (get_prop d ''name'') (\<lambda>n.
     if n = Undefined then Inl (ApiError ''ForienQuestLog.Api.reward.create.data'') else
     and_then (get_prop d ''img'') (\<lambda>i.
     if i = Undefined then Inl (ApiError ''ForienQuestLog.Api.reward.create.data'') else
     Reward_new data)))))"

text \<open>\<open>toJSON()\<close> returns the object literal \<open>{type, data, hidden}\<close> as it is.\<close>

definition Reward_toJSON :: "reward_entity \<Rightarrow> jsval" where
  "Reward_toJSON r =
     JObj [(''type'', ent_type r), (''data'', ent_data r), (''hidden'', ent_hidden r)]"

text \<open>
  \<open>async toggleVisible()\<close>: the promise it returns resolves to the new value of
  \<open>hidden\<close>; the model returns that value with the reward.
\<close>

definition Reward_toggleVisible :: "reward_entity \<Rightarrow> jsval \<times> reward_entity" where
  "Reward_toggleVisible r =
    (let h = js_not (ent_hidden r) in (h, r\<lparr>ent_hidden := h\<rparr>))"

subsection \<open>The class nested in Quest.js\<close>

text \<open>
  \<open>JSON.parse(JSON.stringify(v))\<close> for a value \<open>v\<close> that is an object or an array:
  a property whose value is \<open>undefined\<close> is left out of an object, an \<open>undefined\<close>
  element of an array becomes \<open>null\<close>, and every other value is copied.
\<close>

fun json_roundtrip :: "jsval \<Rightarrow> jsval" where
  "json_roundtrip (JArr xs) =
     JArr (map (\<lambda>v. if v = Undefined then Null else json_roundtrip v) xs)"
| "json_roundtrip (JObj kvs) =
     JObj (map (\<lambda>kv. (fst kv, json_roundtrip (snd kv)))
             (filter (\<lambda>kv. snd kv \<noteq> Undefined) kvs))"
| "json_roundtrip v = v"

text \<open>A value JSON can carry: \<open>undefined\<close> occurs nowhere in it.\<close>

fun json_value :: "jsval \<Rightarrow> bool" where
  "json_value Undefined = False"
| "json_value (JArr xs) = list_all json_value xs"
| "json_value (JObj kvs) = list_all (\<lambda>kv. json_value (snd kv)) kvs"
| "json_value v = True"

record reward =
  reward_type :: jsval
  reward_data :: jsval
  reward_hidden :: jsval

text \<open>
  \<^verbatim>\<open>constructor(data = {}) {
     this.type = data.type || null;
     this.data = data.data || {};
     this.hidden = data.hidden || false; }\<close>
\<close>

definition Quest_Reward_new :: "jsval \<Rightarrow> error + reward" where
  "Quest_Reward_new data0 =
    (let data = default_empty data0 in
     and_then (get_prop data ''type'') (\<lambda>t.
     and_then (get_prop data ''data'') (\<lambda>d.
     and_then (get_prop data ''hidden'') (\<lambda>h.
       Inr \<lparr> reward_type = js_or t Null,
             reward_data = js_or d (JObj []),
             reward_hidden = js_or h (JBool False) \<rparr>))))"

text \<open>
  \<^verbatim>\<open>toJSON() { return JSON.parse(JSON.stringify(
       { type: this.type, data: this.data, hidden: this.hidden })); }\<close>
\<close>

definition Quest_Reward_toJSON :: "reward \<Rightarrow> jsval" where
  "Quest_Reward_toJSON r =
     json_roundtrip
       (JObj [(''type'', reward_type r), (''data'', reward_data r), (''hidden'', reward_hidden r)])"

definition Quest_Reward_toggleVisible :: "reward \<Rightarrow> jsval \<times> reward" where
  "Quest_Reward_toggleVisible r =
    (let h = js_not (reward_hidden r) in (h, r\<lparr>reward_hidden := h\<rparr>))"

text \<open>What a client can read of either class: the triple \<open>(type, data, hidden)\<close>.\<close>

definition entity_fields :: "reward_entity \<Rightarrow> jsval \<times> jsval \<times> jsval" where
  "entity_fields r = (ent_type r, ent_data r, ent_hidden r)"

definition nested_fields :: "reward \<Rightarrow> jsval \<times> jsval \<times> jsval" where
  "nested_fields r = (reward_type r, reward_data r, reward_hidden r)"

section \<open>Arrays\<close>

text \<open>
  An array of objects is a list whose elements are \<open>Some\<close> object or \<open>None\<close> for an
  element that is \<open>undefined\<close>. \<open>xs[i]\<close> for a number \<open>i\<close> is the element when \<open>i\<close> is
  an index of the array and \<open>undefined\<close> otherwise.
\<close>

definition array_get :: "'a option list \<Rightarrow> int \<Rightarrow> 'a option" where
  "array_get xs i = (if 0 \<le> i \<and> i < int (length xs) then xs ! nat i else None)"

text \<open>
  \<open>Array.prototype.splice(start, deleteCount, ...items)\<close>: a negative \<open>start\<close> counts
  from the end, and \<open>start\<close> and \<open>deleteCount\<close> are clamped to the array. The result is
  the array of removed elements and the array as it is afterwards.
\<close>

definition relative_start :: "int \<Rightarrow> nat \<Rightarrow> nat" where
  "relative_start start len =
     (if start < 0 then nat (max (int len + start) 0) else min (nat start) len)"

definition splice :: "'a list \<Rightarrow> int \<Rightarrow> nat \<Rightarrow> 'a list \<Rightarrow> 'a list \<times> 'a list" where
  "splice xs start deleteCount items =
    (let len = length xs;
         s = relative_start start len;
         dc = min deleteCount (len - s)
     in (take dc (drop s xs), take s xs @ items @ drop (s + dc) xs))"

text \<open>\<open>removed[0]\<close>: \<open>undefined\<close> when nothing was removed.\<close>

definition first_removed :: "'a option list \<Rightarrow> 'a option" where
  "first_removed removed = (case removed of [] \<Rightarrow> None | e # _ \<Rightarrow> e)"

section \<open>Quest\<close>

text \<open>
  A quest identifier is a string, and \<open>null\<close> where the source stores \<open>null\<close>
  (\<open>this._id = data.id || null\<close>, \<open>this.parent = data.parent || null\<close>).
\<close>

type_synonym ident = "string option"

text \<open>
  The fields \<open>toJSON()\<close> serializes, in its order. \<open>_name\<close> is \<open>name\<close> here, and \<open>image\<close>
  is \<open>image_\<close> (the name is taken in HOL).
\<close>

record quest_json =
  giver :: jsval
  name :: jsval
  status :: jsval
  description :: jsval
  gmnotes :: jsval
  image_ :: jsval
  giverName :: jsval
  giverImgPos :: jsval
  splashPos :: jsval
  splash :: jsval
  parent :: ident
  subquests :: "ident list"
  tasks :: "task option list"
  rewards :: "reward option list"

text \<open>
  A \<open>Quest\<close> object: the serialized fields, \<open>_id\<close>, \<open>entry\<close> (the journal entry the quest
  was loaded from, by its key in the journal, or \<open>null\<close>) and \<open>data\<close> (the raw record the
  constructor was given).
\<close>

record quest = quest_json +
  quest_id :: ident
  entry :: "string option"
  raw_data :: jsval

definition toJSON :: "quest \<Rightarrow> quest_json" where
  "toJSON q = quest_json.truncate q"

text \<open>
  \<^verbatim>\<open>addReward(data = {}) {
     const reward = new Reward(data);
     if (reward.type !== null) { this.rewards.push(reward); } }\<close>
\<close>

definition addReward :: "quest \<Rightarrow> jsval \<Rightarrow> error + quest" where
  "addReward q data =
     and_then (Quest_Reward_new data) (\<lambda>reward.
       Inr (if reward_type reward \<noteq> Null then q\<lparr>rewards := rewards q @ [Some reward]\<rparr> else q))"

text \<open>\<open>addSubquest(questId) { this.subquests.push(questId); }\<close>\<close>

definition addSubquest :: "quest \<Rightarrow> ident \<Rightarrow> quest" where
  "addSubquest q questId = q\<lparr>subquests := subquests q @ [questId]\<rparr>"

text \<open>
  \<^verbatim>\<open>addTask(data = {}) {
     const task = new Task(data);
     if (task.name.length) { this.tasks.push(task); } }\<close>
\<close>

definition addTask :: "quest \<Rightarrow> jsval \<Rightarrow> error + quest" where
  "addTask q data =
     and_then (Task_new data) (\<lambda>task.
     and_then (get_prop (task_name task) ''length'') (\<lambda>len.
       Inr (if truthy len then q\<lparr>tasks := tasks q @ [Some task]\<rparr> else q)))"

text \<open>
  \<open>removeSubquest(questId) { this.subquests = this.subquests.filter((id) => id !== questId); }\<close>
\<close>

definition removeSubquest :: "quest \<Rightarrow> ident \<Rightarrow> quest" where
  "removeSubquest q questId = q\<lparr>subquests := filter (\<lambda>id. id \<noteq> questId) (subquests q)\<rparr>"

text \<open>
  \<^verbatim>\<open>sortTasks(index, targetIdx) {
     const entry = this.tasks.splice(index, 1)[0];
     if (targetIdx) { this.tasks.splice(targetIdx, 0, entry); }
     else { this.tasks.push(entry); } }\<close>
  and the same for \<open>sortRewards\<close>. Both indices are numbers; \<open>targetIdx\<close> is \<open>None\<close> when
  the caller passes \<open>undefined\<close>, which is not truthy. A number is truthy when it is not
  zero.
\<close>

definition sort_array :: "'a option list \<Rightarrow> int \<Rightarrow> int option \<Rightarrow> 'a option list" where
  "sort_array xs index targetIdx =
    (let (removed, rest) = splice xs index 1 [];
         entry = first_removed removed
     in case targetIdx of
          None \<Rightarrow> rest @ [entry]
        | Some k \<Rightarrow> if k \<noteq> 0 then snd (splice rest k 0 [entry]) else rest @ [entry])"

definition sortTasks :: "quest \<Rightarrow> int \<Rightarrow> int option \<Rightarrow> quest" where
  "sortTasks q index targetIdx = q\<lparr>tasks := sort_array (tasks q) index targetIdx\<rparr>"

definition sortRewards :: "quest \<Rightarrow> int \<Rightarrow> int option \<Rightarrow> quest" where
  "sortRewards q index targetIdx = q\<lparr>rewards := sort_array (rewards q) index targetIdx\<rparr>"

text \<open>
  \<open>toggleReward(index) { this.rewards[index]?.toggleVisible(); }\<close> and
  \<open>toggleTask(index) { this.tasks[index]?.toggleVisible(); }\<close>, for a number \<open>index\<close>.
  The element is an object of the array, so its change is a change of the array.
\<close>

definition toggleReward :: "quest \<Rightarrow> int \<Rightarrow> quest" where
  "toggleReward q index =
    (case array_get (rewards q) index of
       None \<Rightarrow> q
     | Some r \<Rightarrow> q\<lparr>rewards := (rewards q)[nat index := Some (snd (Quest_Reward_toggleVisible r))]\<rparr>)"

definition toggleTask :: "quest \<Rightarrow> int \<Rightarrow> quest" where
  "toggleTask q index =
    (case array_get (tasks q) index of
       None \<Rightarrow> q
     | Some t \<Rightarrow> q\<lparr>tasks := (tasks q)[nat index := Some (snd (Task_toggleVisible t))]\<rparr>)"

section \<open>The host: journal and quest index\<close>

text \<open>
  Modelled from the spec: the journal (\<open>game.journal\<close>) and its entries belong to the host
  application, not to this repository. The spec gives a backing storage record the
  operations \<open>update(patch, opts)\<close>, \<open>delete()\<close> and \<open>canUserModify(user, action)\<close>. An
  entry is modelled by what \<open>Quest.save\<close> writes and asks: its name, the payload stored
  under the module's flag (\<open>flags[constants.moduleName].json\<close>), and whether the acting
  user may update it. \<open>newQuestLabel\<close> is \<open>game.i18n.localize('ForienQuestLog.NewQuest')\<close>.
\<close>

record journal_entry =
  je_name :: string
  je_json :: "quest_json option"
  je_canUpdate :: bool

text \<open>
  The world a quest method runs in: the \<open>Quest\<close> objects, by address, and the journal,
  by entry id. Two references to the same quest object are the same address.
\<close>

record world =
  quests :: "nat \<Rightarrow> quest"
  journal :: "string \<rightharpoonup> journal_entry"
  newQuestLabel :: string

definition set_quest :: "world \<Rightarrow> nat \<Rightarrow> quest \<Rightarrow> world" where
  "set_quest w a q = w\<lparr>quests := (quests w)(a := q)\<rparr>"

text \<open>\<open>game.journal.get(id)\<close>: no entry has the key \<open>null\<close>.\<close>

definition journal_get :: "world \<Rightarrow> ident \<Rightarrow> (string \<times> journal_entry) option" where
  "journal_get w i =
    (case i of None \<Rightarrow> None
     | Some k \<Rightarrow> (case journal w k of None \<Rightarrow> None | Some e \<Rightarrow> Some (k, e)))"

text \<open>An identifier as the value a method returns.\<close>

definition ident_value :: "ident \<Rightarrow> jsval" where
  "ident_value i = (case i of None \<Rightarrow> Null | Some k \<Rightarrow> JStr k)"

text \<open>
  \<^verbatim>\<open>async save() {
     const entry = game.journal.get(this._id);
     if (!entry || !entry.canUserModify(game.user, 'update')) { return; }
     const update = {
        name: typeof this._name === 'string' && this._name.length > 0 ? this._name :
         game.i18n.localize('ForienQuestLog.NewQuest'),
        flags: { [constants.moduleName]: { json: this.toJSON() } } };
     await entry.update(update, { diff: false });
     return this._id; }\<close>
  The result is the value the promise resolves to and the world afterwards.
\<close>

definition update_name :: "world \<Rightarrow> quest \<Rightarrow> string" where
  "update_name w q =
    (case name q of
       JStr s \<Rightarrow> if length s > 0 then s else newQuestLabel w
     | _ \<Rightarrow> newQuestLabel w)"

definition save :: "quest \<Rightarrow> world \<Rightarrow> jsval \<times> world" where
  "save q w =
    (case journal_get w (quest_id q) of
       None \<Rightarrow> (Undefined, w)
     | Some (k, e) \<Rightarrow>
         if \<not> je_canUpdate e then (Undefined, w)
         else (ident_value (quest_id q),
               w\<lparr>journal := (journal w)(k \<mapsto> e\<lparr>je_name := update_name w q,
                                                 je_json := Some (toJSON q)\<rparr>)\<rparr>))"

text \<open>
  \<open>Quest.delete\<close>. \<open>Fetch.quest\<close> (\<open>src/modules/control/Fetch.js\<close>) is not among the
  sources; it is the parameter \<open>Fetch_quest\<close>, which resolves an identifier to the address
  of a quest object, or to nothing.

  The body of the loop over \<open>this.subquests\<close>, for a child that was found:
  \<^verbatim>\<open>childQuest.parent = parentId;
  await childQuest.save();
  savedIDs.push(childQuest._id);
  if (parentQuest) { parentQuest.addSubquest(childQuest._id); }\<close>
\<close>

definition reparent_child ::
  "nat option \<Rightarrow> ident \<Rightarrow> nat \<Rightarrow> world \<times> ident list \<Rightarrow> world \<times> ident list" where
  "reparent_child parentQuest parentId childQuest st =
    (let w = fst st; savedIDs = snd st;
         w1 = set_quest w childQuest ((quests w childQuest)\<lparr>parent := parentId\<rparr>);
         w2 = snd (save (quests w1 childQuest) w1);
         savedIDs' = savedIDs @ [quest_id (quests w2 childQuest)];
         w3 = (case parentQuest of
                 None \<Rightarrow> w2
               | Some p \<Rightarrow> set_quest w2 p
                   (addSubquest (quests w2 p) (quest_id (quests w2 childQuest))))
     in (w3, savedIDs'))"

text \<open>
  \<open>for (const childId of this.subquests)\<close>: the array iterator reads the array of
  \<open>this\<close> as it is at each step, at the next index, until the index reaches its length.
  The loop need not end: when \<open>Fetch.quest\<close> gives \<open>this\<close> itself as the parent, every
  \<open>addSubquest\<close> lengthens the array the loop runs over. \<open>None\<close> is a loop that does not
  end.
\<close>

partial_function (option) delete_loop ::
  "(ident \<Rightarrow> nat option) \<Rightarrow> nat \<Rightarrow> nat option \<Rightarrow> ident \<Rightarrow> nat \<Rightarrow> world \<times> ident list
     \<Rightarrow> (world \<times> ident list) option" where
  "delete_loop Fetch_quest this parentQuest parentId i st =
    (let xs = subquests (quests (fst st) this) in
     if i < length xs then
       (case Fetch_quest (xs ! i) of
          None \<Rightarrow> delete_loop Fetch_quest this parentQuest parentId (Suc i) st
        | Some childQuest \<Rightarrow>
            delete_loop Fetch_quest this parentQuest parentId (Suc i)
              (reparent_child parentQuest parentId childQuest st))
     else Some st)"

declare delete_loop.simps [code]

record delete_result =
  deleteID :: ident
  savedIDs :: "ident list"

text \<open>
  \<^verbatim>\<open>async delete() {
     const parentQuest = Fetch.quest(this.parent);
     let parentId = null;
     const savedIDs = [];
     if (parentQuest) { parentId = parentQuest._id; parentQuest.removeSubquest(this._id); }
     for (const childId of this.subquests) { ... }
     if (parentQuest) { await parentQuest.save(); savedIDs.push(parentQuest._id); }
     if (this.entry) { await this.entry.delete(); }
     return { deleteID: this._id, savedIDs }; }\<close>
  \<open>this\<close> is the address of the quest being deleted. \<open>entry.delete()\<close> takes the entry
  out of the journal.
\<close>

definition delete :: "(ident \<Rightarrow> nat option) \<Rightarrow> nat \<Rightarrow> world \<Rightarrow> (delete_result \<times> world) option" where
  "delete Fetch_quest this w0 =
    (let parentQuest = Fetch_quest (parent (quests w0 this));
         parentId = (case parentQuest of None \<Rightarrow> None | Some p \<Rightarrow> quest_id (quests w0 p));
         w1 = (case parentQuest of
                 None \<Rightarrow> w0
               | Some p \<Rightarrow> set_quest w0 p (removeSubquest (quests w0 p) (quest_id (quests w0 this))))
     in case delete_loop Fetch_quest this parentQuest parentId 0 (w1, []) of
          None \<Rightarrow> None
        | Some st \<Rightarrow>
           (let w2 = fst st; saved = snd st;
                w3 = (case parentQuest of
                        None \<Rightarrow> w2
                      | Some p \<Rightarrow> snd (save (quests w2 p) w2));
                saved' = (case parentQuest of
                        None \<Rightarrow> saved
                      | Some p \<Rightarrow> saved @ [quest_id (quests w3 p)]);
                w4 = (case entry (quests w3 this) of
                        None \<Rightarrow> w3
                      | Some k \<Rightarrow> w3\<lparr>journal := (journal w3)(k := None)\<rparr>)
            in Some (\<lparr>deleteID = quest_id (quests w4 this), savedIDs = saved'\<rparr>, w4)))"

section \<open>QuestTracker.prepareQuests\<close>

text \<open>
  Modelled from the spec: \<open>QuestEntry\<close>, \<open>QuestDB.sortCollect\<close>, \<open>collect\<close> and the
  session store are not among the sources. A quest entry is what \<open>prepareQuests\<close> reads
  of it: \<open>entry.isOwner\<close> and the fields of \<open>entry.enrich\<close>. A collection is the list of
  its items and \<open>transform\<close> maps a function over them. The tracker's surroundings are
  \<open>game.user.isGM\<close>, \<open>Utils.isTrustedPlayerEdit()\<close>, \<open>sessionStorage\<close>, the result of
  \<open>QuestDB.sortCollect({ status: questStatus.active })\<close> and the key prefix
  \<open>sessionConstants.trackerFolderState\<close>.
\<close>

record enrich =
  en_id :: string
  en_giver :: jsval
  en_name :: jsval
  en_isHidden :: jsval
  en_isInactive :: jsval
  en_isPersonal :: jsval
  en_personalActors :: jsval
  en_hasObjectives :: jsval
  en_data_tasks :: "jsval list"
  en_data_subquest :: "jsval list"

record quest_entry =
  qe_enrich :: enrich
  qe_isOwner :: bool

record tracker_env =
  isGM :: bool
  isTrustedPlayerEdit :: bool
  sessionStorage :: "string \<rightharpoonup> string"
  sortCollect_active :: "quest_entry list"
  trackerFolderState :: string

text \<open>The object the callback of \<open>transform\<close> returns for one entry.\<close>

record tracker_quest =
  tq_id :: string
  tq_canEdit :: bool
  tq_playerEdit :: bool
  tq_source :: jsval
  tq_name :: jsval
  tq_isGM :: bool
  tq_isHidden :: jsval
  tq_isInactive :: jsval
  tq_isPersonal :: jsval
  tq_personalActors :: jsval
  tq_hasObjectives :: jsval
  tq_subquests :: "jsval list"
  tq_tasks :: "jsval list"

text \<open>
  \<^verbatim>\<open>(entry) => {
     const q = entry.enrich;
     const collapsed = sessionStorage.getItem(`${sessionConstants.trackerFolderState}${q.id}`) === 'false';
     const tasks = collapsed ? q.data_tasks : [];
     const subquests = collapsed ? q.data_subquest : [];
     return { id: q.id, canEdit: isGM || (entry.isOwner && isTrustedPlayerEdit),
        playerEdit: entry.isOwner, source: q.giver, name: q.name, isGM, ... subquests, tasks }; }\<close>
\<close>

definition transform_entry :: "tracker_env \<Rightarrow> quest_entry \<Rightarrow> tracker_quest" where
  "transform_entry env qe =
    (let q = qe_enrich qe;
         collapsed = (sessionStorage env (trackerFolderState env @ en_id q) = Some ''false'');
         tasks = (if collapsed then en_data_tasks q else []);
         subquests = (if collapsed then en_data_subquest q else [])
     in \<lparr> tq_id = en_id q,
          tq_canEdit = (isGM env \<or> (qe_isOwner qe \<and> isTrustedPlayerEdit env)),
          tq_playerEdit = qe_isOwner qe,
          tq_source = en_giver q,
          tq_name = en_name q,
          tq_isGM = isGM env,
          tq_isHidden = en_isHidden q,
          tq_isInactive = en_isInactive q,
          tq_isPersonal = en_isPersonal q,
          tq_personalActors = en_personalActors q,
          tq_hasObjectives = en_hasObjectives q,
          tq_subquests = subquests,
          tq_tasks = tasks \<rparr>)"

text \<open>
  \<^verbatim>\<open>const questEntries = showOnlyPrimary ? collect(primaryQuest ? [primaryQuest] : []) :
   QuestDB.sortCollect({ status: questStatus.active });
  ...
  return questEntries.transform((entry) => ...);\<close>
  \<open>primaryQuest\<close> is a quest entry or \<open>undefined\<close>.
\<close>

definition prepareQuests :: "tracker_env \<Rightarrow> bool \<Rightarrow> quest_entry option \<Rightarrow> tracker_quest list" where
  "prepareQuests env showOnlyPrimary primaryQuest =
    (let questEntries =
           (if showOnlyPrimary
              then (case primaryQuest of Some e \<Rightarrow> [e] | None \<Rightarrow> [])
              else sortCollect_active env)
     in map (transform_entry env) questEntries)"

section \<open>Definitions for the statements and proofs\<close>

text \<open>
  \<open>sortTasks\<close> and \<open>sortRewards\<close> in the spec's words: remove the element at \<open>index\<close>,
  then reinsert it at \<open>targetIdx\<close> if that is truthy, else append it to the end. A
  position beyond the end is the end, and a negative one counts from the end.
\<close>

definition moved :: "'a list \<Rightarrow> nat \<Rightarrow> int option \<Rightarrow> 'a list" where
  "moved xs i targetIdx =
    (let e = xs ! i; rest = take i xs @ drop (Suc i) xs in
     case targetIdx of
       None \<Rightarrow> rest @ [e]
     | Some k \<Rightarrow>
         if k \<noteq> 0
           then (let p = relative_start k (length rest) in take p rest @ [e] @ drop p rest)
           else rest @ [e])"

text \<open>
  One pass of the loop of \<open>Quest.delete\<close> as a function of the child identifier: a child
  that is not found is skipped.
\<close>

definition loop_body ::
  "(ident \<Rightarrow> nat option) \<Rightarrow> nat option \<Rightarrow> ident \<Rightarrow> world \<times> ident list \<Rightarrow> ident
     \<Rightarrow> world \<times> ident list" where
  "loop_body Fetch_quest parentQuest parentId st childId =
     (case Fetch_quest childId of
        None \<Rightarrow> st
      | Some c \<Rightarrow> reparent_child parentQuest parentId c st)"

text \<open>
  The state of the loop of \<open>Quest.delete\<close> in which it cannot stop: the parent is \<open>this\<close>
  itself, the index is inside the array, every identifier from the index on resolves,
  and so does the id of every quest (so that whatever the loop appends resolves too).
\<close>

definition running ::
  "(ident \<Rightarrow> nat option) \<Rightarrow> nat \<Rightarrow> nat option \<Rightarrow> nat \<Rightarrow> world \<times> ident list \<Rightarrow> bool" where
  "running F this pq i st \<longleftrightarrow>
     pq = Some this
     \<and> i < length (subquests (quests (fst st) this))
     \<and> (\<forall>j. i \<le> j \<and> j < length (subquests (quests (fst st) this)) \<longrightarrow>
            F (subquests (quests (fst st) this) ! j) \<noteq> None)
     \<and> (\<forall>c. F (quest_id (quests (fst st) c)) \<noteq> None)"

section \<open>Example data\<close>

text \<open>
  The quest \<open>new Quest()\<close> builds (with \<open>New Quest\<close> for the localized label) and the task
  \<open>new Task({name: s})\<close> builds.
\<close>

definition blank_quest :: quest where
  "blank_quest =
    \<lparr> giver = Null, name = JStr ''New Quest'', status = JStr ''hidden'',
      description = JStr [], gmnotes = JStr [], image_ = JStr ''actor'',
      giverName = JStr ''actor'', giverImgPos = JStr ''center'',
      splashPos = JStr ''center'', splash = JStr [],
      parent = None, subquests = [], tasks = [], rewards = [],
      quest_id = None, entry = None, raw_data = JObj [] \<rparr>"

definition named_task :: "string \<Rightarrow> task" where
  "named_task s =
    \<lparr>task_name = JStr s, task_completed = JBool False,
     task_failed = JBool False, task_hidden = JBool False\<rparr>"

definition item_reward :: "string \<Rightarrow> reward" where
  "item_reward s =
    \<lparr>reward_type = JStr ''item'', reward_data = JObj [(''name'', JStr s)],
     reward_hidden = JBool False\<rparr>"

text \<open>
  A family of four quests: \<open>A\<close> (address 0) has the parent \<open>P\<close> (address 1) and the
  subquests \<open>B\<close> and \<open>C\<close> (addresses 2 and 3). The journal has an entry for \<open>A\<close> and
  \<open>B\<close> that the user may update, one for \<open>P\<close> that the user may not, and none for \<open>C\<close>.
\<close>

definition example_Fetch :: "ident \<Rightarrow> nat option" where
  "example_Fetch i =
    (if i = Some ''A'' then Some 0
     else if i = Some ''P'' then Some 1
     else if i = Some ''B'' then Some 2
     else if i = Some ''C'' then Some 3
     else None)"

definition example_quests :: "nat \<Rightarrow> quest" where
  "example_quests n =
    (if n = 0 then blank_quest\<lparr>parent := Some ''P'', subquests := [Some ''B'', Some ''C''],
                              quest_id := Some ''A'', entry := Some ''A''\<rparr>
     else if n = 1 then blank_quest\<lparr>subquests := [Some ''A'', Some ''X''], quest_id := Some ''P''\<rparr>
     else if n = 2 then blank_quest\<lparr>parent := Some ''A'', quest_id := Some ''B''\<rparr>
     else blank_quest\<lparr>parent := Some ''A'', quest_id := Some ''C''\<rparr>)"

definition example_entry :: "bool \<Rightarrow> journal_entry" where
  "example_entry may = \<lparr>je_name = ''Old name'', je_json = None, je_canUpdate = may\<rparr>"

definition example_world :: world where
  "example_world =
    \<lparr> quests = example_quests,
      journal = [''A'' \<mapsto> example_entry True, ''B'' \<mapsto> example_entry True,
                 ''P'' \<mapsto> example_entry False],
      newQuestLabel = ''New Quest'' \<rparr>"

section \<open>Theorems\<close>

text \<open>
  C3. A task whose flags are \<open>completed = false\<close> and \<open>failed = false\<close> goes through
  unchecked, completed, failed and back to unchecked: the first \<open>toggle()\<close> sets
  \<open>completed\<close> only, the second clears it and sets \<open>failed\<close>, and the third returns the
  task to exactly the state it started in.
\<close>

theorem Task_toggle_cycle:
  assumes "task_completed t = JBool False" and "task_failed t = JBool False"
  shows "Task_toggle t = t\<lparr>task_completed := JBool True\<rparr>
       \<and> Task_state (Task_toggle t) = ''check-square''
       \<and> Task_toggle (Task_toggle t) = t\<lparr>task_failed := JBool True\<rparr>
       \<and> Task_state (Task_toggle (Task_toggle t)) = ''minus-square''
       \<and> Task_toggle (Task_toggle (Task_toggle t)) = t
       \<and> Task_state t = ''square''"
  using assms by (simp add: Task_toggle_def Task_state_def)

theorem Task_toggle_cycle_witness:
  "Task_toggle (Task_toggle (Task_toggle
     \<lparr>task_name = JStr ''Find the amulet'', task_completed = JBool False,
      task_failed = JBool False, task_hidden = JBool False\<rparr>))
   = \<lparr>task_name = JStr ''Find the amulet'', task_completed = JBool False,
      task_failed = JBool False, task_hidden = JBool False\<rparr>"
proof -
  let ?t = "\<lparr>task_name = JStr ''Find the amulet'', task_completed = JBool False,
      task_failed = JBool False, task_hidden = JBool False\<rparr>"
  have c: "task_completed ?t = JBool False" by simp
  have f: "task_failed ?t = JBool False" by simp
  from Task_toggle_cycle [OF c f] show ?thesis by blast
qed

subsection \<open>Quest.addTask\<close>

text \<open>
  A record with a non-empty string \<open>name\<close> is appended as one task.
\<close>

lemma addTask_named:
  assumes "s \<noteq> []"
  shows "addTask q (JObj [(''name'', JStr s)]) =
     Inr (q\<lparr>tasks := tasks q @ [Some \<lparr>task_name = JStr s, task_completed = JBool False,
         task_failed = JBool False, task_hidden = JBool False\<rparr>]\<rparr>)"
  using assms
  by (simp add: addTask_def Task_new_def and_then_def default_empty_def js_or_def field_def)

text \<open>
  The sibling \<open>addReward\<close> tests \<open>reward.type !== null\<close> and reads no property of the
  value: a record without a type is skipped quietly.
\<close>

lemma addReward_without_type:
  "addReward q (JObj [(''type'', Null)]) = Inr q \<and> addReward q (JObj []) = Inr q"
  by (simp add: addReward_def Quest_Reward_new_def and_then_def default_empty_def field_def
        js_or_def)

text \<open>
  C1. \<open>addTask\<close> is meant to skip a record without a name, but the constructor turns an
  absent or empty \<open>name\<close> into \<open>null\<close> and \<open>task.name.length\<close> then reads a property of
  \<open>null\<close>: \<open>addTask({name: ''})\<close>, \<open>addTask({})\<close> and \<open>addTask()\<close> throw a \<open>TypeError\<close>
  instead of returning quietly.
\<close>

theorem addTask_empty_name_throws:
  "addTask q (JObj [(''name'', JStr [])]) = Inl TypeError
   \<and> addTask q (JObj []) = Inl TypeError
   \<and> addTask q Undefined = Inl TypeError"
  by (simp add: addTask_def Task_new_def and_then_def default_empty_def js_or_def field_def)

subsection \<open>The flags of a task\<close>

lemma toggle_not_both:
  "\<not> (task_completed (Task_toggle t) = JBool True \<and> task_failed (Task_toggle t) = JBool True)"
  by (simp add: Task_toggle_def)

lemma toggleVisible_flags:
  "task_completed (snd (Task_toggleVisible t)) = task_completed t"
  "task_failed (snd (Task_toggleVisible t)) = task_failed t"
  by (simp_all add: Task_toggleVisible_def Let_def)

lemma Task_calls_snoc: "Task_calls t (cs @ [c]) = Task_call (Task_calls t cs) c"
  by (simp add: Task_calls_def)

text \<open>
  After a run of calls both flags are \<open>true\<close> exactly when they were both \<open>true\<close> at the
  start and the run has no \<open>toggle()\<close>: by induction on the run, from its last call.
\<close>

lemma Task_calls_both_true:
  "(task_completed (Task_calls t cs) = JBool True \<and> task_failed (Task_calls t cs) = JBool True)
   \<longleftrightarrow> (task_completed t = JBool True \<and> task_failed t = JBool True \<and> Toggle \<notin> set cs)"
proof (induction cs rule: rev_induct)
  case Nil
  then show ?case by (simp add: Task_calls_def)
next
  case (snoc c cs)
  show ?case
  proof (cases c)
    case Toggle
    then show ?thesis using toggle_not_both [of "Task_calls t cs"]
      by (simp add: Task_calls_snoc)
  next
    case ToggleVisible
    then show ?thesis using snoc
      by (simp add: Task_calls_snoc toggleVisible_flags)
  qed
qed

lemma Task_new_obj:
  "Task_new (JObj kvs) =
   Inr \<lparr> task_name = js_or (field kvs ''name'') Null,
         task_completed = js_or (field kvs ''completed'') (JBool False),
         task_failed = js_or (field kvs ''failed'') (JBool False),
         task_hidden = js_or (field kvs ''hidden'') (JBool False) \<rparr>"
  by (simp add: Task_new_def and_then_def default_empty_def)

lemma js_or_False_is_True: "js_or v (JBool False) = JBool True \<longleftrightarrow> v = JBool True"
  by (cases v) (auto simp: js_or_def)

lemma Task_new_flags:
  "Task_new (JObj kvs) = Inr t \<Longrightarrow>
    (task_completed t = JBool True \<longleftrightarrow> field kvs ''completed'' = JBool True) \<and>
    (task_failed t = JBool True \<longleftrightarrow> field kvs ''failed'' = JBool True)"
  unfolding Task_new_obj
  by (auto simp: js_or_False_is_True)

text \<open>
  C4, as the claim states it, fails: the constructor copies the flags of the raw record
  and checks nothing, so the record \<open>{name: 'x', completed: true, failed: true}\<close> gives
  a task with both flags \<open>true\<close>, and \<open>toggleVisible()\<close> leaves them so.
\<close>

theorem Task_flags_counterexample:
  "Task_new (JObj [(''name'', JStr ''x''), (''completed'', JBool True), (''failed'', JBool True)])
     = Inr \<lparr>task_name = JStr ''x'', task_completed = JBool True,
            task_failed = JBool True, task_hidden = JBool False\<rparr>
   \<and> Task_calls \<lparr>task_name = JStr ''x'', task_completed = JBool True,
            task_failed = JBool True, task_hidden = JBool False\<rparr> [ToggleVisible]
     = \<lparr>task_name = JStr ''x'', task_completed = JBool True,
            task_failed = JBool True, task_hidden = JBool True\<rparr>"
  by (simp add: Task_new_def and_then_def default_empty_def js_or_def js_not_def
        Task_calls_def Task_toggleVisible_def Let_def field_def)

text \<open>
  C4, amended. For a task constructed from a raw record and then put through any run of
  \<open>toggle()\<close> and \<open>toggleVisible()\<close> calls, \<open>completed\<close> and \<open>failed\<close> are not both \<open>true\<close>,
  provided the record did not give both as \<open>true\<close> or the run has at least one
  \<open>toggle()\<close>.
\<close>

theorem Task_flags_not_both_true:
  assumes "Task_new (JObj kvs) = Inr t"
      and "\<not> (field kvs ''completed'' = JBool True \<and> field kvs ''failed'' = JBool True)
           \<or> Toggle \<in> set cs"
  shows "\<not> (task_completed (Task_calls t cs) = JBool True
           \<and> task_failed (Task_calls t cs) = JBool True)"
  using assms Task_new_flags [of kvs t] Task_calls_both_true [of t cs] by blast

theorem Task_flags_not_both_true_witness:
  "\<not> (task_completed (Task_calls
          \<lparr>task_name = JStr ''x'', task_completed = JBool True,
           task_failed = JBool False, task_hidden = JBool False\<rparr>
          [Toggle, ToggleVisible, Toggle]) = JBool True
     \<and> task_failed (Task_calls
          \<lparr>task_name = JStr ''x'', task_completed = JBool True,
           task_failed = JBool False, task_hidden = JBool False\<rparr>
          [Toggle, ToggleVisible, Toggle]) = JBool True)"
proof -
  let ?kvs = "[(''name'', JStr ''x''), (''completed'', JBool True)]"
  let ?t = "\<lparr>task_name = JStr ''x'', task_completed = JBool True,
           task_failed = JBool False, task_hidden = JBool False\<rparr>"
  have new: "Task_new (JObj ?kvs) = Inr ?t"
    by (simp add: Task_new_def and_then_def default_empty_def js_or_def field_def)
  have raw: "\<not> (field ?kvs ''completed'' = JBool True \<and> field ?kvs ''failed'' = JBool True)
           \<or> Toggle \<in> set [Toggle, ToggleVisible, Toggle]"
    by simp
  from Task_flags_not_both_true [OF new raw] show ?thesis .
qed

subsection \<open>Quest.delete\<close>

text \<open>Saving a quest writes to the journal only; the quest objects stay as they are.\<close>

lemma quests_save: "quests (snd (save q w)) = quests w"
  by (simp add: save_def split: option.splits prod.splits)

lemma quests_set_quest: "quests (set_quest w a q) = (quests w)(a := q)"
  by (simp add: set_quest_def)

lemma quests_reparent_child:
  "quests (fst (reparent_child parentQuest parentId c st)) =
    (let qs = (quests (fst st))(c := (quests (fst st) c)\<lparr>parent := parentId\<rparr>) in
     case parentQuest of
       None \<Rightarrow> qs
     | Some p \<Rightarrow> qs(p := addSubquest (qs p) (quest_id (qs c))))"
  by (simp add: reparent_child_def Let_def quests_save quests_set_quest split: option.splits)

lemma savedIDs_reparent_child:
  "snd (reparent_child parentQuest parentId c st) = snd st @ [quest_id (quests (fst st) c)]"
  by (simp add: reparent_child_def Let_def quests_save quests_set_quest)

lemma quest_id_reparent_child:
  "quest_id (quests (fst (reparent_child pq pid c st)) x) = quest_id (quests (fst st) x)"
  by (cases pq) (auto simp: quests_reparent_child Let_def addSubquest_def)

text \<open>
  When the parent is another object than \<open>this\<close>, nothing in the loop touches the array
  the loop runs over.
\<close>

lemma subquests_this_reparent_child:
  assumes "parentQuest \<noteq> Some this"
  shows "subquests (quests (fst (reparent_child parentQuest parentId c st)) this)
       = subquests (quests (fst st) this)"
  using assms
  by (cases parentQuest) (auto simp: quests_reparent_child Let_def)

lemma subquests_this_loop_body:
  assumes "parentQuest \<noteq> Some this"
  shows "subquests (quests (fst (loop_body F parentQuest parentId st cid)) this)
       = subquests (quests (fst st) this)"
  using subquests_this_reparent_child [OF assms]
  by (simp add: loop_body_def split: option.splits)

text \<open>
  So the loop ends, and it is the fold of its body over the identifiers from the index
  on: by induction on the number of identifiers still to visit.
\<close>

lemma delete_loop_terminates:
  assumes "parentQuest \<noteq> Some this"
  shows "delete_loop F this parentQuest parentId i st =
         Some (foldl (loop_body F parentQuest parentId) st
                 (drop i (subquests (quests (fst st) this))))"
proof (induction "length (subquests (quests (fst st) this)) - i" arbitrary: i st)
  case 0
  then show ?case
    by (subst delete_loop.simps) simp
next
  case (Suc n)
  let ?xs = "subquests (quests (fst st) this)"
  from Suc.hyps(2) have lt: "i < length ?xs" by simp
  let ?st' = "loop_body F parentQuest parentId st (?xs ! i)"
  have same: "subquests (quests (fst ?st') this) = ?xs"
    by (rule subquests_this_loop_body [OF assms])
  have n: "n = length (subquests (quests (fst ?st') this)) - Suc i"
    using Suc.hyps(2) by (simp add: same)
  have step: "delete_loop F this parentQuest parentId i st
            = delete_loop F this parentQuest parentId (Suc i) ?st'"
    using lt by (subst delete_loop.simps) (simp add: loop_body_def split: option.splits)
  have "drop i ?xs = ?xs ! i # drop (Suc i) ?xs"
    using lt by (simp add: Cons_nth_drop_Suc)
  then show ?case
    using Suc.hyps(1) [OF n] step by (simp add: same)
qed

text \<open>
  C2. Let quest \<open>A\<close> (at address \<open>a\<close>) have a parent identifier that resolves to a quest
  \<open>P\<close>, another object than \<open>A\<close>, and the subquest list \<open>[B, C]\<close> with both identifiers
  resolvable to quests whose ids differ from \<open>A\<close>'s. Then \<open>A.delete()\<close> returns, and
  afterwards \<open>P\<close>'s subquest list is its old list without \<open>A\<close>'s id, followed by \<open>B\<close>'s
  id and \<open>C\<close>'s id: it contains \<open>B\<close>'s and \<open>C\<close>'s id and not \<open>A\<close>'s. \<open>B.parent\<close> and
  \<open>C.parent\<close> are \<open>P\<close>'s id, \<open>deleteID\<close> is \<open>A\<close>'s id and \<open>savedIDs\<close> is exactly \<open>B\<close>'s
  id, \<open>C\<close>'s id and \<open>P\<close>'s id, in that order.
\<close>

theorem delete_reparents:
  assumes P: "Fetch_quest (parent (quests w a)) = Some p" and pa: "p \<noteq> a"
      and subs: "subquests (quests w a) = [bid, cid]"
      and B: "Fetch_quest bid = Some b" and C: "Fetch_quest cid = Some c"
      and ba: "quest_id (quests w b) \<noteq> quest_id (quests w a)"
      and ca: "quest_id (quests w c) \<noteq> quest_id (quests w a)"
  shows "\<exists>r w'. delete Fetch_quest a w = Some (r, w')
      \<and> subquests (quests w' p) =
          filter (\<lambda>i. i \<noteq> quest_id (quests w a)) (subquests (quests w p))
            @ [quest_id (quests w b), quest_id (quests w c)]
      \<and> quest_id (quests w b) \<in> set (subquests (quests w' p))
      \<and> quest_id (quests w c) \<in> set (subquests (quests w' p))
      \<and> quest_id (quests w a) \<notin> set (subquests (quests w' p))
      \<and> parent (quests w' b) = quest_id (quests w p)
      \<and> parent (quests w' c) = quest_id (quests w p)
      \<and> quest_id (quests w' p) = quest_id (quests w p)
      \<and> deleteID r = quest_id (quests w a)
      \<and> savedIDs r = [quest_id (quests w b), quest_id (quests w c), quest_id (quests w p)]"
proof -
  let ?pid = "quest_id (quests w p)"
  define w1 where "w1 = set_quest w p (removeSubquest (quests w p) (quest_id (quests w a)))"
  define st2 where
    "st2 = reparent_child (Some p) ?pid c (reparent_child (Some p) ?pid b (w1, []))"
  have subs1: "subquests (quests w1 a) = [bid, cid]"
    using pa subs by (simp add: w1_def quests_set_quest)
  have loop: "delete_loop Fetch_quest a (Some p) ?pid 0 (w1, []) = Some st2"
    using pa by (simp add: delete_loop_terminates subs1 loop_body_def B C st2_def)
  have ids1: "\<And>x. quest_id (quests w1 x) = quest_id (quests w x)"
    by (simp add: w1_def quests_set_quest removeSubquest_def)
  have ids2: "\<And>x. quest_id (quests (fst st2) x) = quest_id (quests w x)"
    by (simp add: st2_def quest_id_reparent_child ids1)
  have saved: "snd st2 = [quest_id (quests w b), quest_id (quests w c)]"
    by (simp add: st2_def savedIDs_reparent_child quest_id_reparent_child ids1)
  have psubs: "subquests (quests (fst st2) p) =
          filter (\<lambda>i. i \<noteq> quest_id (quests w a)) (subquests (quests w p))
            @ [quest_id (quests w b), quest_id (quests w c)]"
    by (auto simp: st2_def w1_def quests_reparent_child quests_set_quest Let_def
          addSubquest_def removeSubquest_def)
  have bpar: "parent (quests (fst st2) b) = ?pid"
    by (auto simp: st2_def w1_def quests_reparent_child quests_set_quest Let_def
          addSubquest_def removeSubquest_def)
  have cpar: "parent (quests (fst st2) c) = ?pid"
    by (auto simp: st2_def w1_def quests_reparent_child quests_set_quest Let_def
          addSubquest_def removeSubquest_def)
  define w3 where "w3 = snd (save (quests (fst st2) p) (fst st2))"
  define w4 where "w4 = (case entry (quests w3 a) of None \<Rightarrow> w3
             | Some k \<Rightarrow> w3\<lparr>journal := (journal w3)(k := None)\<rparr>)"
  have q3: "quests w3 = quests (fst st2)"
    by (simp add: w3_def quests_save)
  have q4: "quests w4 = quests (fst st2)"
    by (simp add: w4_def q3 split: option.splits)
  have del: "delete Fetch_quest a w =
     Some (\<lparr>deleteID = quest_id (quests w4 a),
            savedIDs = snd st2 @ [quest_id (quests w3 p)]\<rparr>, w4)"
    unfolding delete_def Let_def P option.case w1_def [symmetric] loop
      w3_def [symmetric] w4_def [symmetric]
    by (rule refl)
  show ?thesis
  proof (intro exI conjI)
    show "delete Fetch_quest a w =
      Some (\<lparr>deleteID = quest_id (quests w4 a),
             savedIDs = snd st2 @ [quest_id (quests w3 p)]\<rparr>, w4)"
      by (rule del)
  qed (use ba ca in \<open>simp_all add: q4 q3 psubs bpar cpar ids2 saved
         eq_commute [of "quest_id (quests w a)"]\<close>)
qed

theorem delete_reparents_witness:
  "\<exists>r w'. delete example_Fetch 0 example_world = Some (r, w')
      \<and> subquests (quests w' 1) = [Some ''X'', Some ''B'', Some ''C'']
      \<and> parent (quests w' 2) = Some ''P''
      \<and> parent (quests w' 3) = Some ''P''
      \<and> deleteID r = Some ''A''
      \<and> savedIDs r = [Some ''B'', Some ''C'', Some ''P'']"
proof -
  have P: "example_Fetch (parent (quests example_world 0)) = Some 1"
    by (simp add: example_Fetch_def example_world_def example_quests_def)
  have pa: "(1::nat) \<noteq> 0" by simp
  have subs: "subquests (quests example_world 0) = [Some ''B'', Some ''C'']"
    by (simp add: example_world_def example_quests_def)
  have B: "example_Fetch (Some ''B'') = Some 2" and C: "example_Fetch (Some ''C'') = Some 3"
    by (simp_all add: example_Fetch_def)
  have ba: "quest_id (quests example_world 2) \<noteq> quest_id (quests example_world 0)"
    and ca: "quest_id (quests example_world 3) \<noteq> quest_id (quests example_world 0)"
    by (simp_all add: example_world_def example_quests_def)
  from delete_reparents [OF P pa subs B C ba ca]
  obtain r w' where
    "delete example_Fetch 0 example_world = Some (r, w')"
    "subquests (quests w' 1) =
       filter (\<lambda>i. i \<noteq> quest_id (quests example_world 0)) (subquests (quests example_world 1))
         @ [quest_id (quests example_world 2), quest_id (quests example_world 3)]"
    "parent (quests w' 2) = quest_id (quests example_world 1)"
    "parent (quests w' 3) = quest_id (quests example_world 1)"
    "deleteID r = quest_id (quests example_world 0)"
    "savedIDs r = [quest_id (quests example_world 2), quest_id (quests example_world 3),
                   quest_id (quests example_world 1)]"
    by blast
  then show ?thesis
    by (intro exI [of _ r] exI [of _ w'])
       (simp add: example_world_def example_quests_def)
qed

text \<open>
  Without the hypothesis that the parent is another object, \<open>delete\<close> need not return.
  When \<open>Fetch.quest\<close> resolves the parent identifier to \<open>this\<close> itself, each pass appends
  to the array the loop runs over; if the identifiers keep resolving, the loop has no
  last pass. The proof is by the induction rule of the partial function: a run that
  returns cannot start in a \<open>running\<close> state, because its next state is \<open>running\<close> again.
\<close>

lemma subquests_reparent_child_self:
  "subquests (quests (fst (reparent_child (Some this) pid c st)) this)
     = subquests (quests (fst st) this) @ [quest_id (quests (fst st) c)]"
  by (simp add: quests_reparent_child Let_def addSubquest_def)

lemma running_step:
  assumes r: "running F this pq i st"
      and c: "F (subquests (quests (fst st) this) ! i) = Some c"
  shows "running F this pq (Suc i) (reparent_child pq pid c st)"
proof -
  let ?xs = "subquests (quests (fst st) this)"
  from r have pq: "pq = Some this" and lt: "i < length ?xs"
    and res: "\<And>j. i \<le> j \<Longrightarrow> j < length ?xs \<Longrightarrow> F (?xs ! j) \<noteq> None"
    and ids: "\<And>x. F (quest_id (quests (fst st) x)) \<noteq> None"
    by (simp_all add: running_def)
  have step: "F ((?xs @ [quest_id (quests (fst st) c)]) ! j) \<noteq> None"
    if "Suc i \<le> j" "j < Suc (length ?xs)" for j
  proof (cases "j < length ?xs")
    case True
    with that res [of j] show ?thesis by (simp add: nth_append)
  next
    case False
    with that have "j = length ?xs" by simp
    with ids [of c] show ?thesis by (simp add: nth_append)
  qed
  have "running F this (Some this) (Suc i) (reparent_child (Some this) pid c st)"
    unfolding running_def subquests_reparent_child_self quest_id_reparent_child
    using lt ids step by simp
  then show ?thesis by (simp add: pq)
qed

lemma delete_loop_self_parent:
  assumes run: "delete_loop F this pq pid i st = Some y"
  shows "\<not> running F this pq i st"
proof (rule delete_loop.raw_induct
         [where P = "\<lambda>F this pq pid i st y. \<not> running F this pq i st", OF _ run])
  fix dl :: "(ident \<Rightarrow> nat option) \<Rightarrow> nat \<Rightarrow> nat option \<Rightarrow> ident \<Rightarrow> nat \<Rightarrow> world \<times> ident list
     \<Rightarrow> (world \<times> ident list) option"
  fix F this pq pid i st y
  assume IH: "\<And>F' this' pq' pid' i' st' y'.
                 dl F' this' pq' pid' i' st' = Some y' \<Longrightarrow> \<not> running F' this' pq' i' st'"
    and body: "(let xs = subquests (quests (fst st) this)
      in if i < length xs
         then case F (xs ! i) of
              None \<Rightarrow> dl F this pq pid (Suc i) st
              | Some childQuest \<Rightarrow>
                  dl F this pq pid (Suc i) (reparent_child pq pid childQuest st)
         else Some st) = Some y"
  show "\<not> running F this pq i st"
  proof
    assume r: "running F this pq i st"
    let ?xs = "subquests (quests (fst st) this)"
    from r have lt: "i < length ?xs" and "F (?xs ! i) \<noteq> None"
      by (simp_all add: running_def)
    then obtain c where c: "F (?xs ! i) = Some c" by blast
    from body have "dl F this pq pid (Suc i) (reparent_child pq pid c st) = Some y"
      by (simp add: Let_def lt c)
    from IH [OF this] running_step [OF r c] show False by blast
  qed
qed

lemma delete_self_parent_never_returns:
  assumes "Fetch_quest (parent (quests w a)) = Some a"
      and "running Fetch_quest a (Some a) 0
             (set_quest w a (removeSubquest (quests w a) (quest_id (quests w a))), [])"
  shows "delete Fetch_quest a w = None"
proof -
  let ?st = "(set_quest w a (removeSubquest (quests w a) (quest_id (quests w a))), [])"
  have "delete_loop Fetch_quest a (Some a) (quest_id (quests w a)) 0 ?st = None"
  proof (cases "delete_loop Fetch_quest a (Some a) (quest_id (quests w a)) 0 ?st")
    case (Some y)
    from delete_loop_self_parent [OF Some] assms(2) show ?thesis by blast
  qed
  then show ?thesis
    unfolding delete_def Let_def assms(1) option.case by simp
qed

text \<open>The example family with \<open>A\<close> made its own parent: \<open>A.delete()\<close> does not return.\<close>

lemma delete_own_parent_example:
  "delete example_Fetch 0
     (example_world\<lparr>quests := example_quests (0 := (example_quests 0)\<lparr>parent := Some ''A''\<rparr>)\<rparr>)
   = None"
proof (rule delete_self_parent_never_returns)
  let ?w = "example_world\<lparr>quests :=
              example_quests (0 := (example_quests 0)\<lparr>parent := Some ''A''\<rparr>)\<rparr>"
  show "example_Fetch (parent (quests ?w 0)) = Some 0"
    by (simp add: example_Fetch_def)
  show "running example_Fetch 0 (Some 0) 0
          (set_quest ?w 0 (removeSubquest (quests ?w 0) (quest_id (quests ?w 0))), [])"
    by (simp add: running_def set_quest_def removeSubquest_def example_quests_def
          example_Fetch_def less_Suc_eq_0_disj nth_Cons')
qed

subsection \<open>Quest.sortTasks and Quest.sortRewards\<close>

lemma splice_remove_inbounds:
  assumes "0 \<le> index" "index < int (length xs)"
  shows "splice xs index 1 [] =
           ([xs ! nat index], take (nat index) xs @ drop (Suc (nat index)) xs)"
proof -
  have lt: "nat index < length xs" using assms by simp
  have s: "relative_start index (length xs) = nat index"
    using assms by (simp add: relative_start_def)
  have dc: "min (Suc 0) (length xs - nat index) = Suc 0"
    using lt by simp
  have tk: "take (Suc 0) (drop (nat index) xs) = [xs ! nat index]"
    using lt by (simp add: Cons_nth_drop_Suc[symmetric])
  show ?thesis
    by (simp add: splice_def Let_def s dc tk)
qed

lemma sort_array_moved:
  assumes "0 \<le> index" "index < int (length xs)"
  shows "sort_array xs index targetIdx = moved xs (nat index) targetIdx"
  using splice_remove_inbounds [OF assms]
  by (simp add: sort_array_def moved_def first_removed_def Let_def splice_def
           split: option.splits)

lemma relative_start_inrange: "0 \<le> k \<Longrightarrow> k \<le> int n \<Longrightarrow> relative_start k n = nat k"
  by (simp add: relative_start_def)

lemma nth_inserted: "p \<le> length ys \<Longrightarrow> (take p ys @ [e] @ drop p ys) ! p = e"
  by (simp add: nth_append)

text \<open>A target index inside the array is the position the element ends up at.\<close>

lemma moved_nth:
  assumes "i < length xs" "0 < k" "k < int (length xs)"
  shows "moved xs i (Some k) ! nat k = xs ! i"
proof -
  let ?rest = "take i xs @ drop (Suc i) xs"
  have len: "length ?rest = length xs - 1" using assms(1) by simp
  have p: "relative_start k (length ?rest) = nat k"
    using assms by (intro relative_start_inrange) (simp_all add: len)
  have "nat k \<le> length ?rest" using assms by (simp add: len)
  from nth_inserted [OF this, of "xs ! i"] show ?thesis
    using assms(2)
    by (simp add: moved_def Let_def p del: length_append length_take length_drop)
qed

lemma moved_first_zero: "xs \<noteq> [] \<Longrightarrow> moved xs 0 (Some 0) = tl xs @ [hd xs]"
  by (cases xs) (simp_all add: moved_def)

text \<open>
  C5. For an index inside the task sequence, \<open>sortTasks(index, targetIdx)\<close> removes the
  element at \<open>index\<close> and, when \<open>targetIdx\<close> is truthy, reinserts it at \<open>targetIdx\<close>, and
  otherwise appends it to the end (\<open>moved\<close>); a truthy \<open>targetIdx\<close> inside the sequence is
  the index the element has afterwards. The same holds of \<open>sortRewards\<close> and the reward
  sequence. \<open>sortTasks(0, 0)\<close> on a non-empty sequence moves the first task to the end.
\<close>

theorem sort_moves_element:
  "(0 \<le> index \<and> index < int (length (tasks q)) \<longrightarrow>
      sortTasks q index targetIdx = q\<lparr>tasks := moved (tasks q) (nat index) targetIdx\<rparr>)
   \<and> (0 \<le> index \<and> index < int (length (tasks q)) \<and> 0 < k \<and> k < int (length (tasks q)) \<longrightarrow>
      tasks (sortTasks q index (Some k)) ! nat k = tasks q ! nat index)
   \<and> (0 \<le> index \<and> index < int (length (rewards q)) \<longrightarrow>
      sortRewards q index targetIdx = q\<lparr>rewards := moved (rewards q) (nat index) targetIdx\<rparr>)
   \<and> (0 \<le> index \<and> index < int (length (rewards q)) \<and> 0 < k \<and> k < int (length (rewards q)) \<longrightarrow>
      rewards (sortRewards q index (Some k)) ! nat k = rewards q ! nat index)
   \<and> (tasks q \<noteq> [] \<longrightarrow>
      sortTasks q 0 (Some 0) = q\<lparr>tasks := tl (tasks q) @ [hd (tasks q)]\<rparr>)"
proof (intro conjI impI)
  assume "0 \<le> index \<and> index < int (length (tasks q))"
  then show "sortTasks q index targetIdx = q\<lparr>tasks := moved (tasks q) (nat index) targetIdx\<rparr>"
    by (simp add: sortTasks_def sort_array_moved)
next
  assume a: "0 \<le> index \<and> index < int (length (tasks q)) \<and> 0 < k \<and> k < int (length (tasks q))"
  then have "nat index < length (tasks q)" by (simp add: nat_less_iff)
  from moved_nth [OF this, of k] a
  show "tasks (sortTasks q index (Some k)) ! nat k = tasks q ! nat index"
    by (simp add: sortTasks_def sort_array_moved)
next
  assume "0 \<le> index \<and> index < int (length (rewards q))"
  then show "sortRewards q index targetIdx =
               q\<lparr>rewards := moved (rewards q) (nat index) targetIdx\<rparr>"
    by (simp add: sortRewards_def sort_array_moved)
next
  assume a: "0 \<le> index \<and> index < int (length (rewards q)) \<and> 0 < k \<and> k < int (length (rewards q))"
  then have "nat index < length (rewards q)" by (simp add: nat_less_iff)
  from moved_nth [OF this, of k] a
  show "rewards (sortRewards q index (Some k)) ! nat k = rewards q ! nat index"
    by (simp add: sortRewards_def sort_array_moved)
next
  assume ne: "tasks q \<noteq> []"
  then have "0 \<le> (0::int)" "(0::int) < int (length (tasks q))" by simp_all
  from sort_array_moved [OF this, of "Some 0"] moved_first_zero [OF ne]
  show "sortTasks q 0 (Some 0) = q\<lparr>tasks := tl (tasks q) @ [hd (tasks q)]\<rparr>"
    by (simp add: sortTasks_def)
qed

theorem sort_moves_element_witness:
  "sortTasks (blank_quest\<lparr>tasks := [Some (named_task ''a''), Some (named_task ''b''),
                                     Some (named_task ''c'')]\<rparr>) 0 (Some 0)
     = blank_quest\<lparr>tasks := [Some (named_task ''b''), Some (named_task ''c''),
                             Some (named_task ''a'')]\<rparr>
   \<and> sortTasks (blank_quest\<lparr>tasks := [Some (named_task ''a''), Some (named_task ''b''),
                                     Some (named_task ''c'')]\<rparr>) 2 (Some 1)
     = blank_quest\<lparr>tasks := [Some (named_task ''a''), Some (named_task ''c''),
                             Some (named_task ''b'')]\<rparr>
   \<and> sortRewards (blank_quest\<lparr>rewards := [Some (item_reward ''x''), Some (item_reward ''y'')]\<rparr>)
        0 None
     = blank_quest\<lparr>rewards := [Some (item_reward ''y''), Some (item_reward ''x'')]\<rparr>"
proof -
  let ?q = "blank_quest\<lparr>tasks := [Some (named_task ''a''), Some (named_task ''b''),
                                   Some (named_task ''c'')]\<rparr>"
  let ?r = "blank_quest\<lparr>rewards := [Some (item_reward ''x''), Some (item_reward ''y'')]\<rparr>"
  have t0: "tasks ?q \<noteq> []" by simp
  have t2: "0 \<le> (2::int) \<and> 2 < int (length (tasks ?q))" by simp
  have r0: "0 \<le> (0::int) \<and> 0 < int (length (rewards ?r))" by simp
  from sort_moves_element [of 0 ?q "Some 0" 1] t0
  have a: "sortTasks ?q 0 (Some 0) = ?q\<lparr>tasks := tl (tasks ?q) @ [hd (tasks ?q)]\<rparr>"
    by blast
  from sort_moves_element [of 2 ?q "Some 1" 1] t2
  have b: "sortTasks ?q 2 (Some 1) = ?q\<lparr>tasks := moved (tasks ?q) (nat 2) (Some 1)\<rparr>"
    by blast
  from sort_moves_element [of 0 ?r None 1] r0
  have c: "sortRewards ?r 0 None = ?r\<lparr>rewards := moved (rewards ?r) (nat 0) None\<rparr>"
    by blast
  show ?thesis
    unfolding a b c
    by (simp add: moved_def relative_start_def)
qed

subsection \<open>Reward.create and the Reward constructor\<close>

lemma Reward_new_obj:
  "Reward_new (JObj kvs) =
     Inr \<lparr>ent_type = js_or (field kvs ''type'') Null,
          ent_data = js_or (field kvs ''data'') (JObj []),
          ent_hidden = js_or (field kvs ''hidden'') (JBool False)\<rparr>"
  by (simp add: Reward_new_def and_then_def default_empty_def)

lemma Reward_new_throws: "Reward_new d = Inl e \<longleftrightarrow> d = Null \<and> e = TypeError"
  by (cases d) (auto simp: Reward_new_def and_then_def default_empty_def)

lemma Reward_create_obj:
  "Reward_create (JObj kvs) =
    (if field kvs ''type'' = Undefined
       then Inl (ApiError ''ForienQuestLog.Api.reward.create.type'')
     else if field kvs ''data'' = Undefined
       then Inl (ApiError ''ForienQuestLog.Api.reward.create.data'')
     else if field kvs ''data'' = Null then Inl TypeError
     else if get_prop (field kvs ''data'') ''name'' = Inr Undefined
           \<or> get_prop (field kvs ''data'') ''img'' = Inr Undefined
       then Inl (ApiError ''ForienQuestLog.Api.reward.create.data'')
     else Reward_new (JObj kvs))"
proof -
  obtain d where d: "field kvs ''data'' = d" by simp
  show ?thesis
    by (cases d) (simp_all add: Reward_create_def default_empty_def Let_def d and_then_def)
qed

text \<open>
  C6, as the claim states it, fails twice on \<open>null\<close>. The constructor reads \<open>data.type\<close>
  of whatever it is given, and only \<open>undefined\<close> takes the default \<open>{}\<close>: \<open>new
  Reward(null)\<close> throws a \<open>TypeError\<close>. And \<open>Reward.create({type: 'item', data: null})\<close>
  passes the test \<open>data.data === undefined\<close> and then reads \<open>data.data.name\<close>: it throws a
  \<open>TypeError\<close>, not the error the factory builds.
\<close>

theorem Reward_create_counterexample:
  "Reward_new Null = Inl TypeError
   \<and> Reward_create (JObj [(''type'', JStr ''item''), (''data'', Null)]) = Inl TypeError"
  by (simp add: Reward_new_def Reward_create_def and_then_def default_empty_def field_def)

text \<open>
  C6, amended. For a record \<open>data\<close>, \<open>Reward.create(data)\<close> throws its own error exactly
  when \<open>data.type\<close> is \<open>undefined\<close>, or \<open>data.data\<close> is \<open>undefined\<close>, or \<open>data.data\<close> is not
  \<open>null\<close> and \<open>data.data.name\<close> or \<open>data.data.img\<close> is \<open>undefined\<close>; it throws a \<open>TypeError\<close>
  when \<open>data.type\<close> is there and \<open>data.data\<close> is \<open>null\<close>; otherwise it returns the reward
  the constructor builds from \<open>data\<close>, and the constructor does not throw for a record.
  \<open>Reward.create()\<close> and \<open>Reward.create({type: 'item'})\<close> throw the factory's error. The
  constructor throws for \<open>null\<close> only.
\<close>

theorem Reward_create_validates:
  "Reward_create (JObj kvs) =
    (if field kvs ''type'' = Undefined
       then Inl (ApiError ''ForienQuestLog.Api.reward.create.type'')
     else if field kvs ''data'' = Undefined
       then Inl (ApiError ''ForienQuestLog.Api.reward.create.data'')
     else if field kvs ''data'' = Null then Inl TypeError
     else if get_prop (field kvs ''data'') ''name'' = Inr Undefined
           \<or> get_prop (field kvs ''data'') ''img'' = Inr Undefined
       then Inl (ApiError ''ForienQuestLog.Api.reward.create.data'')
     else Reward_new (JObj kvs))
   \<and> Reward_new (JObj kvs) =
        Inr \<lparr>ent_type = js_or (field kvs ''type'') Null,
             ent_data = js_or (field kvs ''data'') (JObj []),
             ent_hidden = js_or (field kvs ''hidden'') (JBool False)\<rparr>
   \<and> Reward_create Undefined = Inl (ApiError ''ForienQuestLog.Api.reward.create.type'')
   \<and> Reward_create (JObj [(''type'', JStr ''item'')])
        = Inl (ApiError ''ForienQuestLog.Api.reward.create.data'')
   \<and> (Reward_new d = Inl e \<longleftrightarrow> d = Null \<and> e = TypeError)"
proof (intro conjI)
  show "Reward_create Undefined = Inl (ApiError ''ForienQuestLog.Api.reward.create.type'')"
    by (simp add: Reward_create_def default_empty_def and_then_def field_def)
  show "Reward_create (JObj [(''type'', JStr ''item'')])
        = Inl (ApiError ''ForienQuestLog.Api.reward.create.data'')"
    by (simp add: Reward_create_obj field_def)
qed (rule Reward_create_obj Reward_new_obj Reward_new_throws)+

theorem Reward_create_validates_witness:
  "Reward_create (JObj [(''type'', JStr ''item''),
                        (''data'', JObj [(''name'', JStr ''Sword''), (''img'', JStr ''sword.png'')])])
   = Inr \<lparr>ent_type = JStr ''item'',
          ent_data = JObj [(''name'', JStr ''Sword''), (''img'', JStr ''sword.png'')],
          ent_hidden = JBool False\<rparr>
   \<and> Reward_create (JObj [(''type'', JStr ''item''), (''data'', JObj [(''name'', JStr ''Sword'')])])
   = Inl (ApiError ''ForienQuestLog.Api.reward.create.data'')"
  using Reward_create_validates
    [of "[(''type'', JStr ''item''),
          (''data'', JObj [(''name'', JStr ''Sword''), (''img'', JStr ''sword.png'')])]"]
    Reward_create_validates
    [of "[(''type'', JStr ''item''), (''data'', JObj [(''name'', JStr ''Sword'')])]"]
  by (simp add: field_def js_or_def)

subsection \<open>Quest.save\<close>

text \<open>
  C7. \<open>save()\<close> returns \<open>undefined\<close> and leaves the journal as it is when the journal has
  no entry for the quest's id or the user may not update the entry. Otherwise it returns
  the quest's id, and the entry then has the quest's name and payload; every other entry
  is as before. No case throws: \<open>save\<close> has a result for every quest and world.
\<close>

theorem save_skips_or_updates:
  "(journal_get w (quest_id q) = None \<longrightarrow> save q w = (Undefined, w))
   \<and> (journal_get w (quest_id q) = Some (k, e) \<and> \<not> je_canUpdate e \<longrightarrow>
        save q w = (Undefined, w))
   \<and> (journal_get w (quest_id q) = Some (k, e) \<and> je_canUpdate e \<longrightarrow>
        quest_id q = Some k
        \<and> fst (save q w) = JStr k
        \<and> journal (snd (save q w)) k
            = Some (e\<lparr>je_name := update_name w q, je_json := Some (toJSON q)\<rparr>)
        \<and> (\<forall>k'. k' \<noteq> k \<longrightarrow> journal (snd (save q w)) k' = journal w k')
        \<and> quests (snd (save q w)) = quests w)"
proof (intro conjI impI)
  assume a: "journal_get w (quest_id q) = Some (k, e) \<and> je_canUpdate e"
  then show k: "quest_id q = Some k"
    by (auto simp: journal_get_def split: option.splits)
  from a k show "fst (save q w) = JStr k"
    by (simp add: save_def ident_value_def)
  from a show "journal (snd (save q w)) k
            = Some (e\<lparr>je_name := update_name w q, je_json := Some (toJSON q)\<rparr>)"
    by (simp add: save_def)
  from a show "\<forall>k'. k' \<noteq> k \<longrightarrow> journal (snd (save q w)) k' = journal w k'"
    by (simp add: save_def)
  show "quests (snd (save q w)) = quests w"
    by (simp add: save_def split: option.splits prod.splits)
qed (simp_all add: save_def)

theorem save_skips_or_updates_witness:
  "save (example_quests 3) example_world = (Undefined, example_world)
   \<and> save (example_quests 1) example_world = (Undefined, example_world)
   \<and> fst (save (example_quests 2) example_world) = JStr ''B''
   \<and> journal (snd (save (example_quests 2) example_world)) ''B''
       = Some \<lparr>je_name = ''New Quest'', je_json = Some (toJSON (example_quests 2)),
               je_canUpdate = True\<rparr>"
proof -
  have c: "journal_get example_world (quest_id (example_quests 3)) = None"
    by (simp add: journal_get_def example_world_def example_quests_def)
  have p: "journal_get example_world (quest_id (example_quests 1))
             = Some (''P'', example_entry False) \<and> \<not> je_canUpdate (example_entry False)"
    by (simp add: journal_get_def example_world_def example_quests_def example_entry_def)
  have b: "journal_get example_world (quest_id (example_quests 2))
             = Some (''B'', example_entry True) \<and> je_canUpdate (example_entry True)"
    by (simp add: journal_get_def example_world_def example_quests_def example_entry_def)
  from save_skips_or_updates [of example_world "example_quests 3"] c
  have 1: "save (example_quests 3) example_world = (Undefined, example_world)"
    by blast
  from save_skips_or_updates [of example_world "example_quests 1" "''P''" "example_entry False"] p
  have 2: "save (example_quests 1) example_world = (Undefined, example_world)"
    by blast
  from save_skips_or_updates [of example_world "example_quests 2" "''B''" "example_entry True"] b
  have 3: "fst (save (example_quests 2) example_world) = JStr ''B''"
    and 4: "journal (snd (save (example_quests 2) example_world)) ''B''
       = Some ((example_entry True)\<lparr>je_name := update_name example_world (example_quests 2),
                                    je_json := Some (toJSON (example_quests 2))\<rparr>)"
    by blast+
  have n: "update_name example_world (example_quests 2) = ''New Quest''"
    by (simp add: update_name_def example_world_def example_quests_def blank_quest_def)
  show ?thesis
    using 1 2 3 4 by (simp add: n example_entry_def)
qed

subsection \<open>QuestTracker.prepareQuests\<close>

text \<open>
  C8. With \<open>showOnlyPrimary\<close> set, \<open>prepareQuests\<close> returns exactly one entry, the
  transformed primary quest, when a primary quest is given, and none when it is not; the
  result does not depend on what the query for active quests would return.
\<close>

theorem prepareQuests_primary:
  "length (prepareQuests env True (Some e)) = 1
   \<and> prepareQuests env True (Some e) = [transform_entry env e]
   \<and> length (prepareQuests env True None) = 0
   \<and> prepareQuests (env\<lparr>sortCollect_active := xs\<rparr>) True pq = prepareQuests env True pq"
  by (cases pq) (simp_all add: prepareQuests_def transform_entry_def)

subsection \<open>The two Reward classes\<close>

lemma ctor_same:
  "map_sum id entity_fields (Reward_new d) = map_sum id nested_fields (Quest_Reward_new d)"
  by (cases "default_empty d")
     (simp_all add: Reward_new_def Quest_Reward_new_def and_then_def entity_fields_def
        nested_fields_def Let_def)

lemma json_value_defined: "json_value v \<Longrightarrow> v \<noteq> Undefined"
  by auto

text \<open>The round trip through JSON changes nothing in a value JSON can carry.\<close>

lemma json_roundtrip_id: "json_value v \<Longrightarrow> json_roundtrip v = v"
proof (induction v rule: json_roundtrip.induct)
  case (1 xs)
  then have "\<And>x. x \<in> set xs \<Longrightarrow> (if x = Undefined then Null else json_roundtrip x) = x"
    by (auto simp: list_all_iff)
  then show ?case by (simp add: map_idI)
next
  case (2 kvs)
  then have a: "\<And>kv. kv \<in> set kvs \<Longrightarrow>
                  snd kv \<noteq> Undefined \<and> json_roundtrip (snd kv) = snd kv"
    by (auto simp: list_all_iff dest: json_value_defined)
  then have "filter (\<lambda>kv. snd kv \<noteq> Undefined) kvs = kvs"
    by (simp add: filter_id_conv)
  moreover from a have "map (\<lambda>kv. (fst kv, json_roundtrip (snd kv))) kvs = kvs"
    by (simp add: map_idI)
  ultimately show ?case by simp
qed simp_all

lemma toJSON_related:
  "entity_fields r = nested_fields r' \<Longrightarrow>
     Quest_Reward_toJSON r' = json_roundtrip (Reward_toJSON r)"
  by (simp add: entity_fields_def nested_fields_def Quest_Reward_toJSON_def Reward_toJSON_def)

lemma toJSON_same:
  assumes "entity_fields r = nested_fields r'"
      and "json_value (ent_type r)" "json_value (ent_data r)" "json_value (ent_hidden r)"
  shows "Quest_Reward_toJSON r' = Reward_toJSON r"
proof -
  have "json_value (Reward_toJSON r)" using assms by (simp add: Reward_toJSON_def)
  then show ?thesis using toJSON_related [OF assms(1)] json_roundtrip_id by simp
qed

lemma toggleVisible_same:
  "entity_fields r = nested_fields r' \<Longrightarrow>
     fst (Reward_toggleVisible r) = js_not (ent_hidden r)
   \<and> fst (Quest_Reward_toggleVisible r') = js_not (reward_hidden r')
   \<and> fst (Reward_toggleVisible r) = fst (Quest_Reward_toggleVisible r')
   \<and> entity_fields (snd (Reward_toggleVisible r))
       = (ent_type r, ent_data r, js_not (ent_hidden r))
   \<and> entity_fields (snd (Reward_toggleVisible r))
       = nested_fields (snd (Quest_Reward_toggleVisible r'))"
  by (simp add: entity_fields_def nested_fields_def Reward_toggleVisible_def
        Quest_Reward_toggleVisible_def Let_def)

text \<open>
  C9, as the claim states it, fails for \<open>toJSON\<close>. The nested class sends its payload
  through \<open>JSON.parse(JSON.stringify(...))\<close>, which drops a property whose value is
  \<open>undefined\<close>; the standalone class returns the object literal. From the record
  \<open>{type: 'item', data: {name: undefined}}\<close> both constructors build the same fields,
  but the standalone payload has \<open>data: {name: undefined}\<close> and the nested one
  \<open>data: {}\<close>.
\<close>

theorem Reward_toJSON_counterexample:
  "Reward_new (JObj [(''type'', JStr ''item''), (''data'', JObj [(''name'', Undefined)])])
    = Inr \<lparr>ent_type = JStr ''item'', ent_data = JObj [(''name'', Undefined)],
           ent_hidden = JBool False\<rparr>
  \<and> Quest_Reward_new (JObj [(''type'', JStr ''item''), (''data'', JObj [(''name'', Undefined)])])
    = Inr \<lparr>reward_type = JStr ''item'', reward_data = JObj [(''name'', Undefined)],
           reward_hidden = JBool False\<rparr>
  \<and> Reward_toJSON \<lparr>ent_type = JStr ''item'', ent_data = JObj [(''name'', Undefined)],
                    ent_hidden = JBool False\<rparr>
    = JObj [(''type'', JStr ''item''), (''data'', JObj [(''name'', Undefined)]),
            (''hidden'', JBool False)]
  \<and> Quest_Reward_toJSON \<lparr>reward_type = JStr ''item'', reward_data = JObj [(''name'', Undefined)],
                          reward_hidden = JBool False\<rparr>
    = JObj [(''type'', JStr ''item''), (''data'', JObj []), (''hidden'', JBool False)]
  \<and> Reward_toJSON \<lparr>ent_type = JStr ''item'', ent_data = JObj [(''name'', Undefined)],
                    ent_hidden = JBool False\<rparr>
    \<noteq> Quest_Reward_toJSON \<lparr>reward_type = JStr ''item'',
                            reward_data = JObj [(''name'', Undefined)],
                            reward_hidden = JBool False\<rparr>"
  by (simp add: Reward_new_def Quest_Reward_new_def and_then_def default_empty_def field_def
       js_or_def Reward_toJSON_def Quest_Reward_toJSON_def)

text \<open>
  C9, amended. For every input both constructors give the same outcome: the same
  \<open>(type, data, hidden)\<close>, or both throw. On rewards with the same fields both
  \<open>toggleVisible\<close> definitions store the negation of \<open>hidden\<close> and return it, and leave
  \<open>type\<close> and \<open>data\<close> alone. The nested \<open>toJSON\<close> payload is the JSON round trip of the
  standalone payload; the two payloads are the same when \<open>type\<close>, \<open>data\<close> and \<open>hidden\<close>
  are values JSON can carry (no \<open>undefined\<close> in them).
\<close>

theorem Reward_classes_agree:
  "map_sum id entity_fields (Reward_new d) = map_sum id nested_fields (Quest_Reward_new d)
   \<and> (entity_fields r = nested_fields r' \<longrightarrow>
        fst (Reward_toggleVisible r) = js_not (ent_hidden r)
        \<and> fst (Quest_Reward_toggleVisible r') = js_not (reward_hidden r')
        \<and> fst (Reward_toggleVisible r) = fst (Quest_Reward_toggleVisible r')
        \<and> entity_fields (snd (Reward_toggleVisible r))
            = (ent_type r, ent_data r, js_not (ent_hidden r))
        \<and> entity_fields (snd (Reward_toggleVisible r))
            = nested_fields (snd (Quest_Reward_toggleVisible r'))
        \<and> Quest_Reward_toJSON r' = json_roundtrip (Reward_toJSON r))
   \<and> (entity_fields r = nested_fields r'
        \<and> json_value (ent_type r) \<and> json_value (ent_data r) \<and> json_value (ent_hidden r) \<longrightarrow>
        Quest_Reward_toJSON r' = Reward_toJSON r)"
  using ctor_same [of d] toggleVisible_same [of r r'] toJSON_related [of r r']
    toJSON_same [of r r']
  by blast

theorem Reward_classes_agree_witness:
  "Quest_Reward_toJSON (item_reward ''Sword'')
     = Reward_toJSON \<lparr>ent_type = JStr ''item'', ent_data = JObj [(''name'', JStr ''Sword'')],
                      ent_hidden = JBool False\<rparr>
   \<and> fst (Quest_Reward_toggleVisible (item_reward ''Sword'')) = JBool True
   \<and> fst (Reward_toggleVisible \<lparr>ent_type = JStr ''item'',
                                 ent_data = JObj [(''name'', JStr ''Sword'')],
                                 ent_hidden = JBool False\<rparr>) = JBool True"
proof -
  let ?r = "\<lparr>ent_type = JStr ''item'', ent_data = JObj [(''name'', JStr ''Sword'')],
             ent_hidden = JBool False\<rparr>"
  have same: "entity_fields ?r = nested_fields (item_reward ''Sword'')"
    by (simp add: entity_fields_def nested_fields_def item_reward_def)
  have json: "json_value (ent_type ?r) \<and> json_value (ent_data ?r) \<and> json_value (ent_hidden ?r)"
    by simp
  from Reward_classes_agree [of Undefined ?r "item_reward ''Sword''"] same json
  have "Quest_Reward_toJSON (item_reward ''Sword'') = Reward_toJSON ?r"
    and "fst (Reward_toggleVisible ?r) = js_not (ent_hidden ?r)"
    and "fst (Reward_toggleVisible ?r) = fst (Quest_Reward_toggleVisible (item_reward ''Sword''))"
    by blast+
  then show ?thesis by (simp add: js_not_def)
qed

subsection \<open>Quest.toggleTask and Quest.toggleReward\<close>

text \<open>
  C10. When the sequence has no task (no reward) at \<open>index\<close>, \<open>toggleTask(index)\<close>
  (\<open>toggleReward(index)\<close>) returns the quest as it was. When it has one, the result is the
  quest with the \<open>hidden\<close> flag of that element negated and nothing else changed. Neither
  method has a case that throws.
\<close>

theorem toggle_at_index:
  "(array_get (tasks q) index = None \<longrightarrow> toggleTask q index = q)
   \<and> (array_get (tasks q) index = Some t \<longrightarrow>
        toggleTask q index =
          q\<lparr>tasks := (tasks q)[nat index := Some (t\<lparr>task_hidden := js_not (task_hidden t)\<rparr>)]\<rparr>)
   \<and> (array_get (rewards q) index = None \<longrightarrow> toggleReward q index = q)
   \<and> (array_get (rewards q) index = Some r \<longrightarrow>
        toggleReward q index =
          q\<lparr>rewards :=
               (rewards q)[nat index := Some (r\<lparr>reward_hidden := js_not (reward_hidden r)\<rparr>)]\<rparr>)"
  by (simp add: toggleTask_def toggleReward_def Task_toggleVisible_def
        Quest_Reward_toggleVisible_def Let_def)

theorem toggle_at_index_witness:
  "toggleTask (blank_quest\<lparr>tasks := [Some (named_task ''a''), Some (named_task ''b'')]\<rparr>) 1
     = blank_quest\<lparr>tasks := [Some (named_task ''a''),
                             Some ((named_task ''b'')\<lparr>task_hidden := JBool True\<rparr>)]\<rparr>
   \<and> toggleTask (blank_quest\<lparr>tasks := [Some (named_task ''a''), Some (named_task ''b'')]\<rparr>) 2
     = blank_quest\<lparr>tasks := [Some (named_task ''a''), Some (named_task ''b'')]\<rparr>
   \<and> toggleReward (blank_quest\<lparr>rewards := [Some (item_reward ''x'')]\<rparr>) 0
     = blank_quest\<lparr>rewards := [Some ((item_reward ''x'')\<lparr>reward_hidden := JBool True\<rparr>)]\<rparr>
   \<and> toggleReward (blank_quest\<lparr>rewards := [Some (item_reward ''x'')]\<rparr>) (- 1)
     = blank_quest\<lparr>rewards := [Some (item_reward ''x'')]\<rparr>"
proof -
  let ?q = "blank_quest\<lparr>tasks := [Some (named_task ''a''), Some (named_task ''b'')]\<rparr>"
  let ?p = "blank_quest\<lparr>rewards := [Some (item_reward ''x'')]\<rparr>"
  have t1: "array_get (tasks ?q) 1 = Some (named_task ''b'')"
    and t2: "array_get (tasks ?q) 2 = None"
    and r0: "array_get (rewards ?p) 0 = Some (item_reward ''x'')"
    and r1: "array_get (rewards ?p) (- 1) = None"
    by (simp_all add: array_get_def)
  from toggle_at_index [of ?q 1 "named_task ''b''"] t1
  have a: "toggleTask ?q 1 =
     ?q\<lparr>tasks := (tasks ?q)[nat 1 := Some ((named_task ''b'')
          \<lparr>task_hidden := js_not (task_hidden (named_task ''b''))\<rparr>)]\<rparr>"
    by blast
  from toggle_at_index [of ?q 2] t2 have b: "toggleTask ?q 2 = ?q" by blast
  from toggle_at_index [of ?p 0 _ "item_reward ''x''"] r0
  have c: "toggleReward ?p 0 =
     ?p\<lparr>rewards := (rewards ?p)[nat 0 := Some ((item_reward ''x'')
          \<lparr>reward_hidden := js_not (reward_hidden (item_reward ''x''))\<rparr>)]\<rparr>"
    by blast
  from toggle_at_index [of ?p "- 1"] r1 have d: "toggleReward ?p (- 1) = ?p" by blast
  show ?thesis
    unfolding a b c d
    by (simp add: js_not_def named_task_def item_reward_def)
qed

end
